theory Spec2Isabelle
  imports Main "HOL-Library.Sublist"
begin

section \<open>Values, errors and string primitives\<close>

text \<open>
  The program of \<^verbatim>\<open>rbac_resourcetree.mjs\<close> is dynamically typed. Wherever the source
  inspects the run-time type of an argument (\<^verbatim>\<open>typeof\<close>, \<^verbatim>\<open>instanceof\<close>,
  \<^verbatim>\<open>Array.isArray\<close>, truthiness) the argument is a \<open>jsval\<close>. The fields that the
  source documents with a type are modelled at that type: a Target's \<^verbatim>\<open>level\<close> is an
  array of strings, a Role's \<^verbatim>\<open>permissions\<close> is an "array of permission strings", a
  User's \<^verbatim>\<open>roles\<close> is an "array of Role instances". A permission argument is a string.
  Strings are lists of characters; numbers are restricted to integers. The constructor of
  Role does not check what it stores as \<^verbatim>\<open>permissions\<close>; the section on stored
  instances models that field untyped.
\<close>

record Target =
  level :: "string list"
  uri :: string

datatype jsval =
    JUndefined
  | JNull
  | JBool bool
  | JNum int
  | JStr string
  | JArr "jsval list"
  | JTarget Target
  | JRole Role
  | JUser User
and Role = Role
    (roleId: jsval)
    (roleName: jsval)
    (roleDescription: jsval)
    (targets: "Target list")
    (target: jsval)
    (permissions: "string list")
and User = User
    (roles: "Role list")
    (userId: jsval)
    (userName: jsval)

text \<open>\<^verbatim>\<open>throw new Error(msg)\<close> is the only explicit raise of the source. Reading a
  property of \<^verbatim>\<open>null\<close> or \<^verbatim>\<open>undefined\<close>, and calling a value that is not a
  function, raise a \<^verbatim>\<open>TypeError\<close>.\<close>

datatype error = Error string | TypeError

text \<open>Truthiness, as tested by \<^verbatim>\<open>!x\<close> and \<^verbatim>\<open>if(x)\<close>.\<close>

fun truthy :: "jsval \<Rightarrow> bool" where
  "truthy JUndefined = False"
| "truthy JNull = False"
| "truthy (JBool b) = b"
| "truthy (JNum n) = (n \<noteq> 0)"
| "truthy (JStr s) = (s \<noteq> [])"
| "truthy (JArr xs) = True"
| "truthy (JTarget t) = True"
| "truthy (JRole r) = True"
| "truthy (JUser u) = True"

fun typeof :: "jsval \<Rightarrow> string" where
  "typeof JUndefined = ''undefined''"
| "typeof JNull = ''object''"
| "typeof (JBool b) = ''boolean''"
| "typeof (JNum n) = ''number''"
| "typeof (JStr s) = ''string''"
| "typeof (JArr xs) = ''object''"
| "typeof (JTarget t) = ''object''"
| "typeof (JRole r) = ''object''"
| "typeof (JUser u) = ''object''"

fun instanceofTarget :: "jsval \<Rightarrow> bool" where
  "instanceofTarget (JTarget t) = True"
| "instanceofTarget v = False"

fun instanceofUser :: "jsval \<Rightarrow> bool" where
  "instanceofUser (JUser u) = True"
| "instanceofUser v = False"

fun instanceofRole :: "jsval \<Rightarrow> bool" where
  "instanceofRole (JRole r) = True"
| "instanceofRole v = False"

text \<open>The string inside a value whose \<^verbatim>\<open>typeof\<close> is \<^verbatim>\<open>'string'\<close>, and the
  object inside an instance of Target.\<close>

fun strOf :: "jsval \<Rightarrow> string" where
  "strOf (JStr s) = s"
| "strOf v = []"

fun targetOf :: "jsval \<Rightarrow> Target" where
  "targetOf (JTarget t) = t"
| "targetOf v = \<lparr>level = [], uri = []\<rparr>"

text \<open>\<^verbatim>\<open>Array.prototype.join\<close> on an array of strings.\<close>

fun join :: "string \<Rightarrow> string list \<Rightarrow> string" where
  "join sep [] = []"
| "join sep [x] = x"
| "join sep (x # y # ys) = x @ sep @ join sep (y # ys)"

text \<open>\<^verbatim>\<open>String.prototype.split\<close> with a one-character separator: the empty string
  splits into one empty piece.\<close>

fun split :: "char \<Rightarrow> string \<Rightarrow> string list" where
  "split c [] = [[]]"
| "split c (x # xs) =
     (if x = c then [] # split c xs
      else (case split c xs of
              [] \<Rightarrow> [[x]]
            | w # ws \<Rightarrow> (x # w) # ws))"

text \<open>\<^verbatim>\<open>String.prototype.indexOf\<close>: the position of the first occurrence of the
  needle, or -1. \<open>indexOfFrom\<close> carries the position reached so far.\<close>

fun indexOfFrom :: "nat \<Rightarrow> string \<Rightarrow> string \<Rightarrow> int" where
  "indexOfFrom k [] n = (if n = [] then int k else -1)"
| "indexOfFrom k (h # hs) n =
     (if prefix n (h # hs) then int k else indexOfFrom (Suc k) hs n)"

definition indexOf :: "string \<Rightarrow> string \<Rightarrow> int" where
  "indexOf h n = indexOfFrom 0 h n"

text \<open>\<^verbatim>\<open>Array.prototype.find\<close>: the first element that satisfies the predicate, or
  \<^verbatim>\<open>undefined\<close>. The first argument injects an element into \<open>jsval\<close>.\<close>

definition js_find :: "('a \<Rightarrow> jsval) \<Rightarrow> ('a \<Rightarrow> bool) \<Rightarrow> 'a list \<Rightarrow> jsval" where
  "js_find emb P xs = (case List.find P xs of None \<Rightarrow> JUndefined | Some x \<Rightarrow> emb x)"

text \<open>\<^verbatim>\<open>a && b\<close> yields \<^verbatim>\<open>a\<close> when it is falsy and \<^verbatim>\<open>b\<close> otherwise.\<close>

definition js_and :: "jsval \<Rightarrow> jsval \<Rightarrow> jsval" where
  "js_and a b = (if truthy a then b else a)"

text \<open>Reading a property of a string primitive: the source reads \<^verbatim>\<open>permission\<close> and
  \<^verbatim>\<open>targetType\<close>, which no string has.\<close>

definition str_prop :: "string \<Rightarrow> string \<Rightarrow> jsval" where
  "str_prop s name = (if name = ''length'' then JNum (int (length s)) else JUndefined)"

section \<open>Permission\<close>

definition Permission_CREATE :: string where "Permission_CREATE = ''CREATE''"
definition Permission_READ :: string where "Permission_READ = ''READ''"
definition Permission_UPDATE :: string where "Permission_UPDATE = ''UPDATE''"
definition Permission_DELETE :: string where "Permission_DELETE = ''DELETE''"
definition Permission_SHARE :: string where "Permission_SHARE = ''SHARE''"
definition Permission_ALL :: string where "Permission_ALL = ''ALL''"

text \<open>The test repeated at every entry point that takes a permission:
  \<^verbatim>\<open>permission != Permission.CREATE && ... && permission != Permission.ALL\<close>.\<close>

definition notAPermission :: "string \<Rightarrow> bool" where
  "notAPermission permission \<longleftrightarrow>
     permission \<noteq> Permission_CREATE \<and> permission \<noteq> Permission_READ \<and> permission \<noteq> Permission_UPDATE \<and>
     permission \<noteq> Permission_DELETE \<and> permission \<noteq> Permission_SHARE \<and> permission \<noteq> Permission_ALL"

definition invalidPermissionMsg :: "string \<Rightarrow> string" where
  "invalidPermissionMsg permission =
     ''Invalid permission: '' @ permission @
     ''. Must be one of CREATE, READ, UPDATE, DELETE, SHARE, ALL''"

section \<open>Target\<close>

text \<open>\<^verbatim>\<open>new Target(...argStrings)\<close>.\<close>

definition Target_new :: "jsval list \<Rightarrow> error + Target" where
  "Target_new argStrings =
     (if length argStrings = 0 then Inl (Error ''Needs at least one argument'')
      else if length (filter (\<lambda>arg. typeof arg \<noteq> ''string'') argStrings) > 0
        then Inl (Error ''All arguments must be strings'')
      else let lv = map strOf argStrings
           in Inr \<lparr>level = lv, uri = ''target://'' @ join ''/'' lv\<rparr>)"

section \<open>Role\<close>

text \<open>Collecting the results of \<^verbatim>\<open>target.map(t => new Target(...))\<close>: the first
  constructor that throws ends the map.\<close>

fun collect :: "(error + 'a) list \<Rightarrow> error + 'a list" where
  "collect [] = Inr []"
| "collect (Inl e # rs) = Inl e"
| "collect (Inr x # rs) = (case collect rs of Inl e \<Rightarrow> Inl e | Inr xs \<Rightarrow> Inr (x # xs))"

text \<open>The branches of the Role constructor that compute \<^verbatim>\<open>this.targets\<close>.\<close>

definition Role_targets :: "jsval \<Rightarrow> error + Target list" where
  "Role_targets tg =
     (if \<not> truthy tg then Inl (Error ''target must be provided'')
      else if typeof tg = ''string'' then
        (case Target_new (map JStr (split CHR ''/'' (strOf tg))) of
           Inl e \<Rightarrow> Inl e
         | Inr t \<Rightarrow> Inr [t])
      else if instanceofTarget tg then Inr [targetOf tg]
      else (case tg of
              JArr ts \<Rightarrow>
                if list_all (\<lambda>t. typeof t = ''string'') ts then
                  collect (map (\<lambda>t. Target_new (map JStr (split CHR ''/'' (strOf t)))) ts)
                else if list_all instanceofTarget ts then Inr (map targetOf ts)
                else Inl (Error ''Invalid target. Must be a string, Target instance or array of strings/Target instances'')
            | _ \<Rightarrow> Inl (Error ''Invalid target. Must be a string, Target instance or array of strings/Target instances'')))"

text \<open>\<^verbatim>\<open>new Role(roleId, roleName, roleDescription, target, permissions=[])\<close>; an
  omitted last argument is \<open>None\<close>.\<close>

definition Role_new ::
  "jsval \<Rightarrow> jsval \<Rightarrow> jsval \<Rightarrow> jsval \<Rightarrow> string list option \<Rightarrow> error + Role" where
  "Role_new rid rname rdesc tg perms =
     (if \<not> truthy rid then Inl (Error ''roleId must be provided'')
      else if \<not> truthy rname then Inl (Error ''roleName must be provided'')
      else (case Role_targets tg of
              Inl e \<Rightarrow> Inl e
            | Inr ts \<Rightarrow>
                Inr (Role rid rname rdesc ts tg (case perms of None \<Rightarrow> [] | Some ps \<Rightarrow> ps))))"

text \<open>\<^verbatim>\<open>addPermission\<close>: the role is passed in and the updated role returned.\<close>

definition addPermission :: "Role \<Rightarrow> string \<Rightarrow> error + Role" where
  "addPermission r permission =
     (if \<not> truthy (JStr permission) then Inl (Error ''permission is null or undefined'')
      else if notAPermission permission then Inl (Error (invalidPermissionMsg permission))
      else if truthy (js_find JStr
                 (\<lambda>p. str_prop p ''permission'' = str_prop permission ''permission'' \<and>
                      str_prop p ''targetType'' = str_prop permission ''targetType'')
                 (permissions r))
        then Inl (Error ''permission already exists in role'')
      else Inr (Role (roleId r) (roleName r) (roleDescription r) (targets r) (target r)
                  (permissions r @ [permission])))"

text \<open>\<^verbatim>\<open>removePermission\<close>: the arrow function given to \<^verbatim>\<open>filter\<close> has a block
  body \<^verbatim>\<open>{ ... }\<close> with no \<^verbatim>\<open>return\<close>: it evaluates the comparison and yields
  \<^verbatim>\<open>undefined\<close>.\<close>

definition removePermission_body :: "string \<Rightarrow> string \<Rightarrow> jsval" where
  "removePermission_body permission p =
     (let discarded = (str_prop p ''permission'' \<noteq> str_prop permission ''permission'' \<or>
                       str_prop p ''targetType'' \<noteq> str_prop permission ''targetType'')
      in JUndefined)"

definition removePermission :: "Role \<Rightarrow> string \<Rightarrow> Role" where
  "removePermission r permission =
     Role (roleId r) (roleName r) (roleDescription r) (targets r) (target r)
       (filter (\<lambda>p. truthy (removePermission_body permission p)) (permissions r))"

text \<open>The scope test written inline in \<^verbatim>\<open>authorize\<close>:
  \<^verbatim>\<open>rt => target.uri.indexOf(rt.uri)===0\<close>.\<close>

definition containsOrEquals :: "Target \<Rightarrow> Target \<Rightarrow> bool" where
  "containsOrEquals rt tg \<longleftrightarrow> indexOf (uri tg) (uri rt) = 0"

text \<open>\<^verbatim>\<open>Role.authorize(permission, target)\<close>: the value of the \<^verbatim>\<open>&&\<close> is
  returned as it is.\<close>

definition authorize :: "Role \<Rightarrow> string \<Rightarrow> jsval \<Rightarrow> error + jsval" where
  "authorize r permission tg =
     (if \<not> truthy tg then Inl (Error ''target must be provided'')
      else if \<not> instanceofTarget tg then Inl (Error ''target must be an instance of Target'')
      else if \<not> truthy (JStr permission) then Inl (Error ''permission must be provided'')
      else if notAPermission permission then Inl (Error (invalidPermissionMsg permission))
      else Inr (js_and
                  (js_find JTarget (\<lambda>rt. containsOrEquals rt (targetOf tg)) (targets r))
                  (js_find JStr (\<lambda>p. p = permission \<or> p = Permission_ALL) (permissions r))))"

section \<open>User\<close>

fun roleOf :: "jsval \<Rightarrow> Role" where
  "roleOf (JRole r) = r"
| "roleOf v = Role JUndefined JUndefined JUndefined [] JUndefined []"

text \<open>\<^verbatim>\<open>new User(userId, userName, roles)\<close>.\<close>

definition User_new :: "jsval \<Rightarrow> jsval \<Rightarrow> jsval \<Rightarrow> error + User" where
  "User_new uid uname rs =
     (if \<not> truthy uid then Inl (Error ''userId must be provided'')
      else if \<not> truthy rs then Inl (Error ''roles must be provided'')
      else (case rs of
              JArr xs \<Rightarrow>
                if length (filter (\<lambda>r. \<not> instanceofRole r) xs) > 0
                  then Inl (Error ''all roles must be instances of Role class'')
                else Inr (User (map roleOf xs) uid uname)
            | _ \<Rightarrow> Inl (Error ''roles must be an array'')))"

section \<open>RBACUtil\<close>

text \<open>The loop \<^verbatim>\<open>for(let role of user.roles)\<close> of \<^verbatim>\<open>authorizeUser\<close>.\<close>

fun authorizeRoles :: "Role list \<Rightarrow> string \<Rightarrow> jsval \<Rightarrow> error + bool" where
  "authorizeRoles [] permission tg = Inr False"
| "authorizeRoles (role # rest) permission tg =
     (case authorize role permission tg of
        Inl e \<Rightarrow> Inl e
      | Inr v \<Rightarrow> if truthy v then Inr True else authorizeRoles rest permission tg)"

fun rolesOf :: "jsval \<Rightarrow> Role list" where
  "rolesOf (JUser u) = roles u"
| "rolesOf v = []"

definition authorizeUser :: "jsval \<Rightarrow> string \<Rightarrow> jsval \<Rightarrow> error + bool" where
  "authorizeUser user permission tg =
     (if \<not> truthy user \<or> \<not> instanceofUser user
        then Inl (Error ''user must be provided and must be an instance of User'')
      else if \<not> truthy tg \<or> \<not> instanceofTarget tg
        then Inl (Error ''target must be provided and must be an instance of Target'')
      else if \<not> truthy (JStr permission) \<or> notAPermission permission
        then Inl (Error (invalidPermissionMsg permission))
      else authorizeRoles (rolesOf user) permission tg)"

text \<open>A call of \<^verbatim>\<open>role.authorize\<close> used as a condition, as in
  \<^verbatim>\<open>if(role.authorize(permission, target))\<close>.\<close>

definition authorizes :: "Role \<Rightarrow> string \<Rightarrow> jsval \<Rightarrow> bool" where
  "authorizes role permission tg =
     (case authorize role permission tg of Inl e \<Rightarrow> False | Inr v \<Rightarrow> truthy v)"

section \<open>Instances with the permissions field as stored\<close>

text \<open>
  The Role constructor stores its last argument unchecked
  (\<^verbatim>\<open>this.permissions = permissions\<close>), and the User constructor checks of each role only
  that it is an instance of Role. So a Role instance can hold any value in its
  \<^verbatim>\<open>permissions\<close> field, also inside a User that passes every check of
  \<^verbatim>\<open>authorizeUser\<close>. \<open>StoredRole\<close> and \<open>StoredUser\<close> are the instances with that
  field left untyped; \<open>Role\<close> and \<open>User\<close> above are the instances whose field holds an
  array of strings (\<open>storedRole\<close>, \<open>storedUser\<close>). The field \<^verbatim>\<open>targets\<close> is always
  an array of Target instances: every branch of the constructor assigns one.
\<close>

datatype StoredRole = StoredRole
    (stored_roleId: jsval)
    (stored_roleName: jsval)
    (stored_roleDescription: jsval)
    (stored_targets: "Target list")
    (stored_target: jsval)
    (stored_permissions: jsval)

datatype StoredUser = StoredUser
    (stored_roles: "StoredRole list")
    (stored_userId: jsval)
    (stored_userName: jsval)

definition storedRole :: "Role \<Rightarrow> StoredRole" where
  "storedRole r =
     StoredRole (roleId r) (roleName r) (roleDescription r) (targets r) (target r)
       (JArr (map JStr (permissions r)))"

definition storedUser :: "User \<Rightarrow> StoredUser" where
  "storedUser u = StoredUser (map storedRole (roles u)) (userId u) (userName u)"

text \<open>\<^verbatim>\<open>new Role(roleId, roleName, roleDescription, target, permissions=[])\<close> with any
  value as last argument; the default applies to \<^verbatim>\<open>undefined\<close>.\<close>

definition Role_new_stored ::
  "jsval \<Rightarrow> jsval \<Rightarrow> jsval \<Rightarrow> jsval \<Rightarrow> jsval \<Rightarrow> error + StoredRole" where
  "Role_new_stored rid rname rdesc tg perms =
     (if \<not> truthy rid then Inl (Error ''roleId must be provided'')
      else if \<not> truthy rname then Inl (Error ''roleName must be provided'')
      else (case Role_targets tg of
              Inl e \<Rightarrow> Inl e
            | Inr ts \<Rightarrow>
                Inr (StoredRole rid rname rdesc ts tg
                       (if perms = JUndefined then JArr [] else perms))))"

fun isArray :: "jsval \<Rightarrow> bool" where
  "isArray (JArr xs) = True"
| "isArray v = False"

text \<open>\<^verbatim>\<open>Role.authorize\<close> on a stored instance. The right operand of \<^verbatim>\<open>&&\<close> is
  evaluated only when the left one is truthy; \<^verbatim>\<open>this.permissions.find(...)\<close> raises a
  \<^verbatim>\<open>TypeError\<close> unless the field holds an array. An element is \<^verbatim>\<open>===\<close> to the
  permission string exactly when it is that string.\<close>

definition authorize_stored :: "StoredRole \<Rightarrow> string \<Rightarrow> jsval \<Rightarrow> error + jsval" where
  "authorize_stored r permission tg =
     (if \<not> truthy tg then Inl (Error ''target must be provided'')
      else if \<not> instanceofTarget tg then Inl (Error ''target must be an instance of Target'')
      else if \<not> truthy (JStr permission) then Inl (Error ''permission must be provided'')
      else if notAPermission permission then Inl (Error (invalidPermissionMsg permission))
      else let found = js_find JTarget (\<lambda>rt. containsOrEquals rt (targetOf tg)) (stored_targets r)
           in if \<not> truthy found then Inr found
              else (case stored_permissions r of
                      JArr ps \<Rightarrow>
                        Inr (js_find (\<lambda>p. p)
                               (\<lambda>p. p = JStr permission \<or> p = JStr Permission_ALL) ps)
                    | _ \<Rightarrow> Inl TypeError))"

definition authorizes_stored :: "StoredRole \<Rightarrow> string \<Rightarrow> jsval \<Rightarrow> bool" where
  "authorizes_stored role permission tg =
     (case authorize_stored role permission tg of Inl e \<Rightarrow> False | Inr v \<Rightarrow> truthy v)"

fun authorizeRoles_stored :: "StoredRole list \<Rightarrow> string \<Rightarrow> jsval \<Rightarrow> error + bool" where
  "authorizeRoles_stored [] permission tg = Inr False"
| "authorizeRoles_stored (role # rest) permission tg =
     (case authorize_stored role permission tg of
        Inl e \<Rightarrow> Inl e
      | Inr v \<Rightarrow> if truthy v then Inr True else authorizeRoles_stored rest permission tg)"

text \<open>The first argument of \<^verbatim>\<open>authorizeUser\<close>: any value, or a stored User instance.\<close>

datatype subject = AnyValue jsval | UserInstance StoredUser

fun subject_truthy :: "subject \<Rightarrow> bool" where
  "subject_truthy (AnyValue v) = truthy v"
| "subject_truthy (UserInstance u) = True"

fun subject_instanceofUser :: "subject \<Rightarrow> bool" where
  "subject_instanceofUser (AnyValue v) = instanceofUser v"
| "subject_instanceofUser (UserInstance u) = True"

fun subject_roles :: "subject \<Rightarrow> StoredRole list" where
  "subject_roles (AnyValue v) = map storedRole (rolesOf v)"
| "subject_roles (UserInstance u) = stored_roles u"

definition authorizeUser_stored :: "subject \<Rightarrow> string \<Rightarrow> jsval \<Rightarrow> error + bool" where
  "authorizeUser_stored user permission tg =
     (if \<not> subject_truthy user \<or> \<not> subject_instanceofUser user
        then Inl (Error ''user must be provided and must be an instance of User'')
      else if \<not> truthy tg \<or> \<not> instanceofTarget tg
        then Inl (Error ''target must be provided and must be an instance of Target'')
      else if \<not> truthy (JStr permission) \<or> notAPermission permission
        then Inl (Error (invalidPermissionMsg permission))
      else authorizeRoles_stored (subject_roles user) permission tg)"

text \<open>Every role of the user holds an array in its \<^verbatim>\<open>permissions\<close> field.\<close>

definition permissionsAreArrays :: "StoredRole list \<Rightarrow> bool" where
  "permissionsAreArrays rs = list_all (\<lambda>r. isArray (stored_permissions r)) rs"

section \<open>Containment as the specification words it\<close>

text \<open>
  The specification's \<open>containsOrEquals\<close>: the address of the first scope is a prefix of
  the address of the second, and the character that follows the shared prefix, if there is
  one, is the segment separator. This definition follows the specification and is compared
  with the test of the source, \<open>containsOrEquals\<close>.
\<close>

definition segmentBoundaryContains :: "Target \<Rightarrow> Target \<Rightarrow> bool" where
  "segmentBoundaryContains s t \<longleftrightarrow>
     prefix (uri s) (uri t) \<and>
     (case drop (length (uri s)) (uri t) of [] \<Rightarrow> True | c # rest \<Rightarrow> c = CHR ''/'')"

section \<open>Auxiliary facts\<close>

lemmas Permission_defs = Permission_CREATE_def Permission_READ_def Permission_UPDATE_def
      Permission_DELETE_def Permission_SHARE_def Permission_ALL_def

lemma indexOfFrom_range: "indexOfFrom k h n = -1 \<or> int k \<le> indexOfFrom k h n"
  by (induction k h n rule: indexOfFrom.induct) auto

lemma indexOfFrom_start: "indexOfFrom k h n = int k \<longleftrightarrow> prefix n h"
proof (cases h)
  case Nil
  then show ?thesis by auto
next
  case (Cons c cs)
  have "indexOfFrom (Suc k) cs n \<noteq> int k"
    using indexOfFrom_range [of "Suc k" cs n] by auto
  with Cons show ?thesis by auto
qed

lemma containsOrEquals_prefix: "containsOrEquals rt tg \<longleftrightarrow> prefix (uri rt) (uri tg)"
  using indexOfFrom_start [of 0 "uri tg" "uri rt"] by (simp add: containsOrEquals_def indexOf_def)

lemma permission_nonempty: "\<not> notAPermission p \<Longrightarrow> p \<noteq> []"
  by (auto simp: notAPermission_def Permission_defs)

lemma authorize_valid:
  assumes "\<not> notAPermission permission"
  shows "authorize r permission (JTarget t) =
     Inr (js_and (js_find JTarget (\<lambda>rt. containsOrEquals rt t) (targets r))
                 (js_find JStr (\<lambda>p. p = permission \<or> p = Permission_ALL) (permissions r)))"
  using assms permission_nonempty [OF assms] by (simp add: authorize_def)

lemma truthy_find_target: "truthy (js_find JTarget P ts) \<longleftrightarrow> list_ex P ts"
  by (induction ts) (auto simp: js_find_def)

lemma find_target_undefined: "\<not> list_ex P ts \<Longrightarrow> js_find JTarget P ts = JUndefined"
  by (induction ts) (auto simp: js_find_def)

lemma find_permission_cases:
  "List.find (\<lambda>p. p = permission \<or> p = Permission_ALL) ps = None \<and>
     permission \<notin> set ps \<and> Permission_ALL \<notin> set ps
   \<or> (\<exists>p. List.find (\<lambda>p. p = permission \<or> p = Permission_ALL) ps = Some p \<and>
         p \<in> set ps \<and> (p = permission \<or> p = Permission_ALL))"
  by (induction ps) auto

lemma authorizes_iff:
  assumes "\<not> notAPermission permission"
  shows "authorizes r permission (JTarget t) \<longleftrightarrow>
     list_ex (\<lambda>rt. prefix (uri rt) (uri t)) (targets r) \<and>
     (permission \<in> set (permissions r) \<or> Permission_ALL \<in> set (permissions r))"
proof -
  have ne: "permission \<noteq> []" by (rule permission_nonempty [OF assms])
  have all_ne: "Permission_ALL \<noteq> []" by (simp add: Permission_ALL_def)
  show ?thesis
    using find_permission_cases [of permission "permissions r"] ne all_ne
    by (auto simp: authorizes_def authorize_valid [OF assms] js_and_def truthy_find_target
        js_find_def [of JStr] containsOrEquals_prefix)
qed

lemma authorizeRoles_or:
  assumes "\<not> notAPermission permission"
  shows "authorizeRoles rs permission (JTarget t) =
     Inr (list_ex (\<lambda>role. authorizes role permission (JTarget t)) rs)"
  by (induction rs) (simp_all add: authorizes_def authorize_valid [OF assms])

lemma all_strings_map_JStr: "filter (\<lambda>arg. typeof arg \<noteq> ''string'') (map JStr ss) = []"
  by (induction ss) auto

lemma strOf_map_JStr: "map (strOf \<circ> JStr) ss = ss"
  by (induction ss) auto

lemma segmentBoundary_implies_containsOrEquals:
  "segmentBoundaryContains s t \<Longrightarrow> containsOrEquals s t"
  by (simp add: segmentBoundaryContains_def containsOrEquals_prefix)

lemma removePermission_permissions: "permissions (removePermission r permission) = []"
  by (simp add: removePermission_def removePermission_body_def)

lemma addPermission_duplicate_iff:
  assumes "\<not> notAPermission permission"
  shows "addPermission r permission = Inl (Error ''permission already exists in role'') \<longleftrightarrow>
           permissions r \<noteq> [] \<and> hd (permissions r) \<noteq> []"
  using assms permission_nonempty [OF assms]
  by (cases "permissions r") (auto simp: addPermission_def js_find_def str_prop_def)

lemma takeWhile_join:
  assumes "CHR ''/'' \<notin> set x"
  shows "takeWhile (\<lambda>c. c \<noteq> CHR ''/'') (join ''/'' (x # rest)) = x"
proof -
  have all: "\<forall>c \<in> set x. c \<noteq> CHR ''/''" using assms by auto
  show ?thesis
  proof (cases rest)
    case Nil
    with all show ?thesis by simp
  next
    case (Cons y ys)
    with all show ?thesis by (simp add: takeWhile_tail)
  qed
qed

lemma dropWhile_join:
  assumes "CHR ''/'' \<notin> set x"
  shows "dropWhile (\<lambda>c. c \<noteq> CHR ''/'') (join ''/'' (x # rest)) =
           (if rest = [] then [] else CHR ''/'' # join ''/'' rest)"
proof -
  have all: "\<forall>c \<in> set x. c \<noteq> CHR ''/''" using assms by auto
  then have none: "dropWhile (\<lambda>c. c \<noteq> CHR ''/'') x = []" by simp
  show ?thesis
  proof (cases rest)
    case Nil
    with none show ?thesis by simp
  next
    case (Cons y ys)
    with none show ?thesis by (simp add: dropWhile_append3)
  qed
qed

lemma join_injective:
  "xs \<noteq> [] \<Longrightarrow> ys \<noteq> [] \<Longrightarrow>
   \<forall>seg \<in> set xs. CHR ''/'' \<notin> set seg \<Longrightarrow> \<forall>seg \<in> set ys. CHR ''/'' \<notin> set seg \<Longrightarrow>
   join ''/'' xs = join ''/'' ys \<Longrightarrow> xs = ys"
proof (induction xs arbitrary: ys)
  case Nil
  then show ?case by simp
next
  case (Cons x xs')
  from Cons.prems obtain y ys' where ys: "ys = y # ys'" by (cases ys) auto
  have nx: "CHR ''/'' \<notin> set x" and ny: "CHR ''/'' \<notin> set y"
    using Cons.prems ys by auto
  have eq: "join ''/'' (x # xs') = join ''/'' (y # ys')"
    using Cons.prems ys by simp
  have xy: "x = y"
    using arg_cong [OF eq, of "takeWhile (\<lambda>c. c \<noteq> CHR ''/'')"]
    by (simp only: takeWhile_join [OF nx] takeWhile_join [OF ny])
  have dw: "(if xs' = [] then [] else CHR ''/'' # join ''/'' xs') =
            (if ys' = [] then [] else CHR ''/'' # join ''/'' ys')"
    using arg_cong [OF eq, of "dropWhile (\<lambda>c. c \<noteq> CHR ''/'')"]
    by (simp only: dropWhile_join [OF nx] dropWhile_join [OF ny])
  show ?case
  proof (cases "xs' = []")
    case True
    with dw have "ys' = []" by (simp split: if_splits)
    with True xy ys show ?thesis by simp
  next
    case False
    with dw have ne: "ys' \<noteq> []" and tl: "join ''/'' xs' = join ''/'' ys'"
      by (simp_all split: if_splits)
    have "\<forall>seg \<in> set xs'. CHR ''/'' \<notin> set seg" "\<forall>seg \<in> set ys'. CHR ''/'' \<notin> set seg"
      using Cons.prems ys by auto
    with False ne tl have "xs' = ys'" using Cons.IH by blast
    with xy ys show ?thesis by simp
  qed
qed

lemma Target_new_Inr:
  "Target_new args = Inr t \<Longrightarrow>
   args \<noteq> [] \<and> args = map JStr (level t) \<and> uri t = ''target://'' @ join ''/'' (level t)"
proof -
  assume ok: "Target_new args = Inr t"
  then have ne: "args \<noteq> []" and str: "filter (\<lambda>arg. typeof arg \<noteq> ''string'') args = []"
    by (auto simp: Target_new_def split: if_splits)
  from str have "\<forall>a \<in> set args. typeof a = ''string''"
    by (auto simp: filter_empty_conv)
  then have roundtrip: "map JStr (map strOf args) = args"
  proof (induction args)
    case Nil
    then show ?case by simp
  next
    case (Cons a rest)
    then have "typeof a = ''string''" by simp
    then have "JStr (strOf a) = a" by (cases a) auto
    with Cons show ?case by simp
  qed
  from ok ne str have "t = \<lparr>level = map strOf args, uri = ''target://'' @ join ''/'' (map strOf args)\<rparr>"
    by (simp add: Target_new_def Let_def)
  with ne roundtrip show ?thesis by simp
qed

lemma User_new_Inr:
  "User_new uid uname rs = Inr u \<Longrightarrow>
   \<exists>xs. rs = JArr xs \<and> list_all instanceofRole xs \<and> u = User (map roleOf xs) uid uname"
  by (cases rs) (auto simp: User_new_def filter_empty_conv list_all_iff split: if_splits)

lemma find_stored_strings:
  "js_find (\<lambda>p. p) (\<lambda>p. p = JStr permission \<or> p = JStr q) (map JStr ps) =
   js_find JStr (\<lambda>p. p = permission \<or> p = q) ps"
  by (induction ps) (auto simp: js_find_def)

lemma authorize_stored_storedRole:
  "authorize_stored (storedRole r) permission tg = authorize r permission tg"
  by (simp add: authorize_stored_def authorize_def storedRole_def js_and_def Let_def
      find_stored_strings truthy_find_target)

lemma authorizeRoles_stored_storedRole:
  "authorizeRoles_stored (map storedRole rs) permission tg = authorizeRoles rs permission tg"
  by (induction rs) (simp_all add: authorize_stored_storedRole split: sum.splits)

lemma authorizeUser_stored_AnyValue:
  "authorizeUser_stored (AnyValue v) permission tg = authorizeUser v permission tg"
  by (simp add: authorizeUser_stored_def authorizeUser_def authorizeRoles_stored_storedRole)

lemma permissionsAreArrays_storedRole: "permissionsAreArrays (map storedRole rs)"
  by (induction rs) (simp_all add: permissionsAreArrays_def storedRole_def)

lemma authorize_stored_array:
  assumes "\<not> notAPermission permission" and "isArray (stored_permissions r)"
  shows "\<exists>v. authorize_stored r permission (JTarget t) = Inr v"
proof -
  have ne: "permission \<noteq> []" by (rule permission_nonempty [OF assms(1)])
  from assms(2) obtain ps where "stored_permissions r = JArr ps"
    by (cases "stored_permissions r") auto
  then show ?thesis
    using assms(1) ne by (simp add: authorize_stored_def Let_def)
qed

lemma authorizeRoles_stored_or:
  assumes "\<not> notAPermission permission"
  shows "permissionsAreArrays rs \<Longrightarrow>
     authorizeRoles_stored rs permission (JTarget t) =
       Inr (list_ex (\<lambda>role. authorizes_stored role permission (JTarget t)) rs)"
proof (induction rs)
  case Nil
  then show ?case by simp
next
  case (Cons r rs)
  then have arr: "isArray (stored_permissions r)" and rest: "permissionsAreArrays rs"
    by (simp_all add: permissionsAreArrays_def)
  from authorize_stored_array [OF assms arr] obtain v
    where v: "authorize_stored r permission (JTarget t) = Inr v" by blast
  show ?case
    using Cons.IH [OF rest] v by (simp add: authorizes_stored_def)
qed

lemma authorizeUser_stored_null_permissions:
  "Role_new_stored (JStr ''r1'') (JStr ''R1'') JUndefined (JStr ''InGen'') JNull =
     Inr (StoredRole (JStr ''r1'') (JStr ''R1'') JUndefined
            [\<lparr>level = [''InGen''], uri = ''target://InGen''\<rparr>] (JStr ''InGen'') JNull) \<and>
   authorizeUser_stored
     (UserInstance (StoredUser
        [StoredRole (JStr ''r1'') (JStr ''R1'') JUndefined
            [\<lparr>level = [''InGen''], uri = ''target://InGen''\<rparr>] (JStr ''InGen'') JNull]
        (JStr ''u1'') (JStr ''U1'')))
     ''READ'' (JTarget \<lparr>level = [''InGen''], uri = ''target://InGen''\<rparr>) = Inl TypeError"
  by (simp add: Role_new_stored_def Role_targets_def Target_new_def authorizeUser_stored_def
      authorize_stored_def notAPermission_def Permission_defs js_find_def containsOrEquals_prefix)

section \<open>The claims\<close>

text \<open>
  Claim C1. Scope containment is tested at segment boundaries and never as a raw string
  prefix; Scope(["job1"]) does not contain-or-equal Scope(["job12"]) and does
  contain-or-equal Scope(["job1","x"]). The source tests a raw prefix: the theorem evaluates
  the test of \<open>Role.authorize\<close> on the scopes built from "job1", "job12" and
  "job1","x". It accepts "job12" under "job1", which containment at a segment boundary
  rejects, and a role on "job1" that grants READ authorizes READ on "job12".
\<close>

theorem C1_containment_is_raw_prefix:
  "Target_new [JStr ''job1''] = Inr \<lparr>level = [''job1''], uri = ''target://job1''\<rparr> \<and>
   Target_new [JStr ''job12''] = Inr \<lparr>level = [''job12''], uri = ''target://job12''\<rparr> \<and>
   Target_new [JStr ''job1'', JStr ''x''] = Inr \<lparr>level = [''job1'', ''x''], uri = ''target://job1/x''\<rparr> \<and>
   containsOrEquals \<lparr>level = [''job1''], uri = ''target://job1''\<rparr> \<lparr>level = [''job1'', ''x''], uri = ''target://job1/x''\<rparr> \<and>
   segmentBoundaryContains \<lparr>level = [''job1''], uri = ''target://job1''\<rparr> \<lparr>level = [''job1'', ''x''], uri = ''target://job1/x''\<rparr> \<and>
   containsOrEquals \<lparr>level = [''job1''], uri = ''target://job1''\<rparr> \<lparr>level = [''job12''], uri = ''target://job12''\<rparr> \<and>
   \<not> segmentBoundaryContains \<lparr>level = [''job1''], uri = ''target://job1''\<rparr> \<lparr>level = [''job12''], uri = ''target://job12''\<rparr> \<and>
   authorize (Role (JStr ''r1'') (JStr ''R1'') JUndefined [\<lparr>level = [''job1''], uri = ''target://job1''\<rparr>] (JTarget \<lparr>level = [''job1''], uri = ''target://job1''\<rparr>) [''READ''])
     ''READ'' (JTarget \<lparr>level = [''job12''], uri = ''target://job12''\<rparr>) = Inr (JStr ''READ'')"
  by (simp add: Target_new_def containsOrEquals_prefix segmentBoundaryContains_def
      authorize_def notAPermission_def Permission_defs js_and_def js_find_def)

text \<open>
  Claim C2. For a valid permission and a Target, \<open>Role.authorize\<close> returns true iff
  one of the role's scopes contains-or-equals the requested scope and the granted set holds
  the requested action or ALL. The theorem evaluates the source on a role that owns
  InGen/Engineering/job7 and grants READ, asked for READ on InGen/Engineering/job789: no
  scope of the role contains the requested scope at a segment boundary, and the call returns
  the truthy string "READ".
\<close>

theorem C2_authorize_partial_segment:
  "Role_new (JStr ''r7'') (JStr ''R7'') JUndefined (JStr ''InGen/Engineering/job7'')
     (Some [''READ'']) =
     Inr (Role (JStr ''r7'') (JStr ''R7'') JUndefined
            [\<lparr>level = [''InGen'', ''Engineering'', ''job7''], uri = ''target://InGen/Engineering/job7''\<rparr>]
            (JStr ''InGen/Engineering/job7'') [''READ'']) \<and>
   Target_new [JStr ''InGen'', JStr ''Engineering'', JStr ''job789''] =
     Inr \<lparr>level = [''InGen'', ''Engineering'', ''job789''], uri = ''target://InGen/Engineering/job789''\<rparr> \<and>
   \<not> list_ex (\<lambda>rt. segmentBoundaryContains rt
                   \<lparr>level = [''InGen'', ''Engineering'', ''job789''], uri = ''target://InGen/Engineering/job789''\<rparr>)
        [\<lparr>level = [''InGen'', ''Engineering'', ''job7''], uri = ''target://InGen/Engineering/job7''\<rparr>] \<and>
   authorize (Role (JStr ''r7'') (JStr ''R7'') JUndefined
                [\<lparr>level = [''InGen'', ''Engineering'', ''job7''], uri = ''target://InGen/Engineering/job7''\<rparr>]
                (JStr ''InGen/Engineering/job7'') [''READ''])
     ''READ''
     (JTarget \<lparr>level = [''InGen'', ''Engineering'', ''job789''], uri = ''target://InGen/Engineering/job789''\<rparr>) = Inr (JStr ''READ'') \<and>
   truthy (JStr ''READ'')"
  by (simp add: Role_new_def Role_targets_def Target_new_def authorize_def notAPermission_def
      Permission_defs js_and_def js_find_def containsOrEquals_prefix segmentBoundaryContains_def)


text \<open>
  Claim C3. For a User, a valid permission and a Target, \<open>authorizeUser\<close> returns the
  logical OR, over the user's roles in stored order, of \<open>role.authorize\<close> taken as a
  condition; with no roles it returns false; and once a role authorizes, the result is true
  whatever roles follow it.
\<close>

theorem C3_authorizeUser_is_or_of_roles:
  assumes "\<not> notAPermission permission"
  shows "authorizeUser (JUser u) permission (JTarget t) =
           Inr (list_ex (\<lambda>role. authorizes role permission (JTarget t)) (roles u))
       \<and> (roles u = [] \<longrightarrow> authorizeUser (JUser u) permission (JTarget t) = Inr False)
       \<and> (\<forall>before role rest.
            roles u = before @ role # rest \<and> authorizes role permission (JTarget t) \<longrightarrow>
            authorizeUser (JUser u) permission (JTarget t) = Inr True)"
proof -
  have ne: "permission \<noteq> []" by (rule permission_nonempty [OF assms])
  have main: "authorizeUser (JUser u) permission (JTarget t) =
           Inr (list_ex (\<lambda>role. authorizes role permission (JTarget t)) (roles u))"
    using assms ne by (simp add: authorizeUser_def authorizeRoles_or [OF assms])
  show ?thesis
    unfolding main by auto
qed

theorem C3_authorizeUser_is_or_of_roles_witness:
  "\<not> notAPermission ''READ'' \<and>
   authorizeUser
     (JUser (User [Role (JStr ''IngenEnggHM'') (JStr ''IngenEngineeringHiringManager'') JUndefined
                     [\<lparr>level = [''InGen'', ''Engineering'', ''job789''],
                       uri = ''target://InGen/Engineering/job789''\<rparr>]
                     JUndefined [''READ'', ''CREATE'', ''UPDATE'', ''DELETE'']]
              (JStr ''anita'') (JStr ''Anita'')))
     ''READ''
     (JTarget \<lparr>level = [''InGen'', ''Engineering'', ''job789'', ''Interview1''],
               uri = ''target://InGen/Engineering/job789/Interview1''\<rparr>) = Inr True \<and>
   authorizeUser (JUser (User [] (JStr ''nobody'') (JStr ''Nobody''))) ''READ''
     (JTarget \<lparr>level = [''InGen''], uri = ''target://InGen''\<rparr>) = Inr False"
proof -
  have v: "\<not> notAPermission ''READ''"
    by (simp add: notAPermission_def Permission_defs)
  have a: "authorizes
      (Role (JStr ''IngenEnggHM'') (JStr ''IngenEngineeringHiringManager'') JUndefined
         [\<lparr>level = [''InGen'', ''Engineering'', ''job789''],
           uri = ''target://InGen/Engineering/job789''\<rparr>]
         JUndefined [''READ'', ''CREATE'', ''UPDATE'', ''DELETE''])
      ''READ''
      (JTarget \<lparr>level = [''InGen'', ''Engineering'', ''job789'', ''Interview1''],
                uri = ''target://InGen/Engineering/job789/Interview1''\<rparr>)"
    by (simp add: authorizes_iff [OF v])
  show ?thesis
    using v a
      C3_authorizeUser_is_or_of_roles [OF v,
        of "User [Role (JStr ''IngenEnggHM'') (JStr ''IngenEngineeringHiringManager'') JUndefined
                     [\<lparr>level = [''InGen'', ''Engineering'', ''job789''],
                       uri = ''target://InGen/Engineering/job789''\<rparr>]
                     JUndefined [''READ'', ''CREATE'', ''UPDATE'', ''DELETE'']]
              (JStr ''anita'') (JStr ''Anita'')"
           "\<lparr>level = [''InGen'', ''Engineering'', ''job789'', ''Interview1''],
               uri = ''target://InGen/Engineering/job789/Interview1''\<rparr>"]
      C3_authorizeUser_is_or_of_roles [OF v, of "User [] (JStr ''nobody'') (JStr ''Nobody'')"
           "\<lparr>level = [''InGen''], uri = ''target://InGen''\<rparr>"]
    by simp
qed

text \<open>
  Claim C4. \<open>addAction(a)\<close> fails with a duplicate error iff \<open>a\<close> is already in the
  role's granted set, and otherwise inserts it. The source compares the properties
  \<open>permission\<close> and \<open>targetType\<close> of two strings, which are both undefined: the
  theorem evaluates \<open>addPermission\<close> on a role that grants only READ, adding CREATE,
  and the call raises "permission already exists in role".
\<close>

theorem C4_addPermission_rejects_absent_permission:
  "Role_new (JStr ''r1'') (JStr ''R1'') JUndefined (JStr ''InGen'') (Some [''READ'']) =
     Inr (Role (JStr ''r1'') (JStr ''R1'') JUndefined
            [\<lparr>level = [''InGen''], uri = ''target://InGen''\<rparr>] (JStr ''InGen'') [''READ'']) \<and>
   ''CREATE'' \<notin> set [''READ''] \<and>
   addPermission (Role (JStr ''r1'') (JStr ''R1'') JUndefined
            [\<lparr>level = [''InGen''], uri = ''target://InGen''\<rparr>] (JStr ''InGen'') [''READ''])
     ''CREATE'' = Inl (Error ''permission already exists in role'')"
  by (simp add: Role_new_def Role_targets_def Target_new_def addPermission_def notAPermission_def
      Permission_defs js_find_def str_prop_def)

text \<open>
  Claim C5. \<open>removeAction(a)\<close> removes \<open>a\<close> when it is granted, leaves the granted
  set unchanged when it is not, and is idempotent. The predicate that the source gives to
  \<open>filter\<close> returns nothing: the theorem evaluates \<open>removePermission\<close> on a role that
  grants only READ, removing CREATE, and the granted set becomes empty.
\<close>

theorem C5_removePermission_clears_all:
  "''CREATE'' \<notin> set [''READ''] \<and>
   permissions (removePermission
      (Role (JStr ''r1'') (JStr ''R1'') JUndefined
            [\<lparr>level = [''InGen''], uri = ''target://InGen''\<rparr>] (JStr ''InGen'') [''READ''])
      ''CREATE'') = []"
  by (simp add: removePermission_def removePermission_body_def)

text \<open>
  Claim C6. Role construction rejects every target argument that denotes no scope, so a
  constructed Role owns at least one scope. The theorem evaluates the constructor on the
  empty array as target: it succeeds, and the role owns no scope.
\<close>

theorem C6_Role_with_no_target:
  "Role_new (JStr ''r1'') (JStr ''R1'') (JStr ''no scopes'') (JArr []) (Some [''READ'']) =
     Inr (Role (JStr ''r1'') (JStr ''R1'') (JStr ''no scopes'') [] (JArr []) [''READ''])"
  by (simp add: Role_new_def Role_targets_def)

text \<open>
  Claim C7, as stated: no two distinct segment sequences that the Target constructor accepts
  have the same address. The constructor accepts a segment that contains the separator:
  the sequences "a/b" and "a","b" are both accepted and both have the address
  target://a/b.
\<close>

theorem C7_segments_with_separator_collide:
  "Target_new [JStr ''a/b''] = Inr \<lparr>level = [''a/b''], uri = ''target://a/b''\<rparr> \<and>
   Target_new [JStr ''a'', JStr ''b''] = Inr \<lparr>level = [''a'', ''b''], uri = ''target://a/b''\<rparr> \<and>
   [''a/b''] \<noteq> [''a'', ''b'']"
  by (simp add: Target_new_def)

text \<open>
  Claim C7, amended. The address is a function of the segment sequence, and two Targets
  that the constructor accepts, none of whose segments contains the separator, have the same
  address only if they have the same segments (and were built from the same arguments).
\<close>

theorem C7_uri_injective_on_separator_free_segments:
  assumes "Target_new xs = Inr s" and "Target_new ys = Inr t"
    and "\<forall>seg \<in> set (level s). CHR ''/'' \<notin> set seg"
    and "\<forall>seg \<in> set (level t). CHR ''/'' \<notin> set seg"
    and "uri s = uri t"
  shows "level s = level t \<and> xs = ys"
proof -
  from Target_new_Inr [OF assms(1)] have s: "xs \<noteq> []" "xs = map JStr (level s)"
    "uri s = ''target://'' @ join ''/'' (level s)" by auto
  from Target_new_Inr [OF assms(2)] have t: "ys \<noteq> []" "ys = map JStr (level t)"
    "uri t = ''target://'' @ join ''/'' (level t)" by auto
  have "join ''/'' (level s) = join ''/'' (level t)"
    using assms(5) s(3) t(3) by simp
  moreover have "level s \<noteq> []" "level t \<noteq> []" using s(1,2) t(1,2) by auto
  ultimately have "level s = level t"
    using join_injective [OF _ _ assms(3) assms(4)] by blast
  with s(2) t(2) show ?thesis by simp
qed

theorem C7_uri_injective_on_separator_free_segments_witness:
  "Target_new [JStr ''a'', JStr ''b''] = Inr \<lparr>level = [''a'', ''b''], uri = ''target://a/b''\<rparr> \<and>
   list_all (\<lambda>seg. CHR ''/'' \<notin> set seg) (level \<lparr>level = [''a'', ''b''], uri = ''target://a/b''\<rparr>) \<and>
   uri \<lparr>level = [''a'', ''b''], uri = ''target://a/b''\<rparr> = uri \<lparr>level = [''a'', ''b''], uri = ''target://a/b''\<rparr> \<and>
   level \<lparr>level = [''a'', ''b''], uri = ''target://a/b''\<rparr> = level \<lparr>level = [''a'', ''b''], uri = ''target://a/b''\<rparr> \<and>
   [JStr ''a'', JStr ''b''] = [JStr ''a'', JStr ''b'']"
proof -
  have built: "Target_new [JStr ''a'', JStr ''b''] = Inr \<lparr>level = [''a'', ''b''], uri = ''target://a/b''\<rparr>"
    by (simp add: Target_new_def)
  have free: "\<forall>seg \<in> set (level \<lparr>level = [''a'', ''b''], uri = ''target://a/b''\<rparr>). CHR ''/'' \<notin> set seg"
    by simp
  show ?thesis
    using built free C7_uri_injective_on_separator_free_segments [OF built built free free refl]
    by simp
qed

text \<open>
  Claim C8. For a well-formed User (an instance of User each of whose roles holds an array
  in its \<^verbatim>\<open>permissions\<close> field), a valid permission and a Target,
  \<open>authorizeUser\<close> raises nothing: it returns true when some role authorizes and false
  when none does, so a denial is the value false. And whenever \<open>authorizeUser\<close> raises,
  the user argument is not an instance of User, or one of its roles holds something other
  than an array as permissions, or the target argument is not a Target, or the permission
  is not one of the six.
\<close>

theorem C8_authorizeUser_denial_is_false:
  "(subject_instanceofUser who \<and> permissionsAreArrays (subject_roles who) \<and>
    \<not> notAPermission permission \<longrightarrow>
      authorizeUser_stored who permission (JTarget t) =
        Inr (list_ex (\<lambda>role. authorizes_stored role permission (JTarget t)) (subject_roles who))
      \<and> (\<not> list_ex (\<lambda>role. authorizes_stored role permission (JTarget t)) (subject_roles who) \<longrightarrow>
           authorizeUser_stored who permission (JTarget t) = Inr False))
   \<and> (authorizeUser_stored user permission tg = Inl e \<longrightarrow>
        \<not> subject_instanceofUser user \<or> \<not> permissionsAreArrays (subject_roles user) \<or>
        \<not> instanceofTarget tg \<or> notAPermission permission)"
proof -
  have granted: "authorizeUser_stored w permission (JTarget t') =
      Inr (list_ex (\<lambda>role. authorizes_stored role permission (JTarget t')) (subject_roles w))"
    if u: "subject_instanceofUser w" and arr: "permissionsAreArrays (subject_roles w)"
      and v: "\<not> notAPermission permission" for w t'
  proof -
    have ne: "permission \<noteq> []" by (rule permission_nonempty [OF v])
    have tr: "subject_truthy w"
    proof (cases w)
      case (AnyValue x)
      with u show ?thesis by (cases x) auto
    next
      case (UserInstance x)
      then show ?thesis by simp
    qed
    show ?thesis
      using u tr v ne by (simp add: authorizeUser_stored_def authorizeRoles_stored_or [OF v arr])
  qed
  have raised: "\<not> subject_instanceofUser user \<or> \<not> permissionsAreArrays (subject_roles user) \<or>
        \<not> instanceofTarget tg \<or> notAPermission permission"
    if err: "authorizeUser_stored user permission tg = Inl e"
  proof (rule ccontr)
    assume "\<not> (\<not> subject_instanceofUser user \<or> \<not> permissionsAreArrays (subject_roles user) \<or>
        \<not> instanceofTarget tg \<or> notAPermission permission)"
    then have u: "subject_instanceofUser user" and arr: "permissionsAreArrays (subject_roles user)"
      and t: "instanceofTarget tg" and v: "\<not> notAPermission permission" by auto
    from t obtain t' where tg: "tg = JTarget t'" by (cases tg) auto
    from err show False by (simp add: tg granted [OF u arr v])
  qed
  show ?thesis
    using granted [of who t] raised by auto
qed

theorem C8_authorizeUser_denial_is_false_witness:
  "\<not> notAPermission ''UPDATE'' \<and>
   permissionsAreArrays (stored_roles (StoredUser
        [StoredRole (JStr ''IngenInterviewer'') (JStr ''IngenInterviewer'') JUndefined
           [\<lparr>level = [''InGen'', ''Engineering'', ''job789'', ''Interview1''],
             uri = ''target://InGen/Engineering/job789/Interview1''\<rparr>]
           JUndefined (JArr [JStr ''READ'', JStr ''UPDATE''])]
        (JStr ''deepak'') (JStr ''Deepak''))) \<and>
   authorizeUser_stored
     (UserInstance (StoredUser
        [StoredRole (JStr ''IngenInterviewer'') (JStr ''IngenInterviewer'') JUndefined
           [\<lparr>level = [''InGen'', ''Engineering'', ''job789'', ''Interview1''],
             uri = ''target://InGen/Engineering/job789/Interview1''\<rparr>]
           JUndefined (JArr [JStr ''READ'', JStr ''UPDATE''])]
        (JStr ''deepak'') (JStr ''Deepak'')))
     ''UPDATE''
     (JTarget \<lparr>level = [''InGen'', ''HR'', ''job555'', ''discussion999''],
                uri = ''target://InGen/HR/job555/discussion999''\<rparr>) = Inr False \<and>
   authorizeUser_stored
     (UserInstance (StoredUser
        [StoredRole (JStr ''IngenInterviewer'') (JStr ''IngenInterviewer'') JUndefined
           [\<lparr>level = [''InGen'', ''Engineering'', ''job789'', ''Interview1''],
             uri = ''target://InGen/Engineering/job789/Interview1''\<rparr>]
           JUndefined (JArr [JStr ''READ'', JStr ''UPDATE''])]
        (JStr ''deepak'') (JStr ''Deepak'')))
     ''UPDATE''
     (JTarget \<lparr>level = [''InGen'', ''Engineering'', ''job789'', ''Interview1''],
                uri = ''target://InGen/Engineering/job789/Interview1''\<rparr>) = Inr True \<and>
   authorizeUser_stored (AnyValue JNull) ''UPDATE'' JNull =
     Inl (Error ''user must be provided and must be an instance of User'') \<and>
   \<not> subject_instanceofUser (AnyValue JNull)"
proof -
  have v: "\<not> notAPermission ''UPDATE''"
    by (simp add: notAPermission_def Permission_defs)
  have arr: "permissionsAreArrays (stored_roles (StoredUser
        [StoredRole (JStr ''IngenInterviewer'') (JStr ''IngenInterviewer'') JUndefined
           [\<lparr>level = [''InGen'', ''Engineering'', ''job789'', ''Interview1''],
             uri = ''target://InGen/Engineering/job789/Interview1''\<rparr>]
           JUndefined (JArr [JStr ''READ'', JStr ''UPDATE''])]
        (JStr ''deepak'') (JStr ''Deepak'')))"
    by (simp add: permissionsAreArrays_def)
  have no: "\<not> authorizes_stored
      (StoredRole (JStr ''IngenInterviewer'') (JStr ''IngenInterviewer'') JUndefined
         [\<lparr>level = [''InGen'', ''Engineering'', ''job789'', ''Interview1''],
           uri = ''target://InGen/Engineering/job789/Interview1''\<rparr>]
         JUndefined (JArr [JStr ''READ'', JStr ''UPDATE'']))
      ''UPDATE'' (JTarget \<lparr>level = [''InGen'', ''HR'', ''job555'', ''discussion999''],
                uri = ''target://InGen/HR/job555/discussion999''\<rparr>)"
    by (simp add: authorizes_stored_def authorize_stored_def notAPermission_def Permission_defs
        js_find_def containsOrEquals_prefix)
  have yes: "authorizes_stored
      (StoredRole (JStr ''IngenInterviewer'') (JStr ''IngenInterviewer'') JUndefined
         [\<lparr>level = [''InGen'', ''Engineering'', ''job789'', ''Interview1''],
           uri = ''target://InGen/Engineering/job789/Interview1''\<rparr>]
         JUndefined (JArr [JStr ''READ'', JStr ''UPDATE'']))
      ''UPDATE'' (JTarget \<lparr>level = [''InGen'', ''Engineering'', ''job789'', ''Interview1''],
                uri = ''target://InGen/Engineering/job789/Interview1''\<rparr>)"
    by (simp add: authorizes_stored_def authorize_stored_def notAPermission_def Permission_defs
        js_find_def containsOrEquals_prefix)
  have e: "authorizeUser_stored (AnyValue JNull) ''UPDATE'' JNull =
     Inl (Error ''user must be provided and must be an instance of User'')"
    by (simp add: authorizeUser_stored_def)
  show ?thesis
    using v arr no yes e
      C8_authorizeUser_denial_is_false [of
        "UserInstance (StoredUser
        [StoredRole (JStr ''IngenInterviewer'') (JStr ''IngenInterviewer'') JUndefined
           [\<lparr>level = [''InGen'', ''Engineering'', ''job789'', ''Interview1''],
             uri = ''target://InGen/Engineering/job789/Interview1''\<rparr>]
           JUndefined (JArr [JStr ''READ'', JStr ''UPDATE''])]
        (JStr ''deepak'') (JStr ''Deepak''))"
        "''UPDATE''"
        "\<lparr>level = [''InGen'', ''HR'', ''job555'', ''discussion999''],
                uri = ''target://InGen/HR/job555/discussion999''\<rparr>"
        "AnyValue JNull" JNull "Error ''user must be provided and must be an instance of User''"]
      C8_authorizeUser_denial_is_false [of
        "UserInstance (StoredUser
        [StoredRole (JStr ''IngenInterviewer'') (JStr ''IngenInterviewer'') JUndefined
           [\<lparr>level = [''InGen'', ''Engineering'', ''job789'', ''Interview1''],
             uri = ''target://InGen/Engineering/job789/Interview1''\<rparr>]
           JUndefined (JArr [JStr ''READ'', JStr ''UPDATE''])]
        (JStr ''deepak'') (JStr ''Deepak''))"
        "''UPDATE''"
        "\<lparr>level = [''InGen'', ''Engineering'', ''job789'', ''Interview1''],
                uri = ''target://InGen/Engineering/job789/Interview1''\<rparr>"
        "AnyValue JNull" JNull "Error ''user must be provided and must be an instance of User''"]
    by simp
qed

text \<open>
  Claim C9. The Target constructor raises "Needs at least one argument" when it is called
  with no segment, raises "All arguments must be strings" when some segment is not a string,
  and with one or more string segments succeeds, keeping the segments as they are.
\<close>

theorem C9_Target_constructor:
  "Target_new [] = Inl (Error ''Needs at least one argument'')
   \<and> ((\<exists>a \<in> set args. typeof a \<noteq> ''string'') \<longrightarrow>
        Target_new args = Inl (Error ''All arguments must be strings''))
   \<and> (ss \<noteq> [] \<longrightarrow>
        Target_new (map JStr ss) = Inr \<lparr>level = ss, uri = ''target://'' @ join ''/'' ss\<rparr>)"
proof (intro conjI impI)
  show "Target_new [] = Inl (Error ''Needs at least one argument'')"
    by (simp add: Target_new_def)
next
  assume "\<exists>a \<in> set args. typeof a \<noteq> ''string''"
  then have "filter (\<lambda>arg. typeof arg \<noteq> ''string'') args \<noteq> []" and "args \<noteq> []"
    by (auto simp: filter_empty_conv)
  then show "Target_new args = Inl (Error ''All arguments must be strings'')"
    by (simp add: Target_new_def)
next
  assume "ss \<noteq> []"
  then show "Target_new (map JStr ss) = Inr \<lparr>level = ss, uri = ''target://'' @ join ''/'' ss\<rparr>"
    by (simp add: Target_new_def all_strings_map_JStr strOf_map_JStr Let_def)
qed

theorem C9_Target_constructor_witness:
  "(\<exists>a \<in> set [JStr ''InGen'', JNum 7]. typeof a \<noteq> ''string'') \<and>
   Target_new [JStr ''InGen'', JNum 7] = Inl (Error ''All arguments must be strings'') \<and>
   [''InGen'', ''Engineering''] \<noteq> [] \<and>
   Target_new (map JStr [''InGen'', ''Engineering'']) =
     Inr \<lparr>level = [''InGen'', ''Engineering''], uri = ''target://InGen/Engineering''\<rparr>"
  using C9_Target_constructor [of "[JStr ''InGen'', JNum 7]" "[''InGen'', ''Engineering'']"]
  by simp

text \<open>
  Claim C10. For a valid permission and a Target, \<open>Role.authorize\<close> never returns a
  boolean literal: when the scope test and the action test both succeed it returns the
  permission string that \<open>find\<close> matched, which is non-empty and so truthy, and
  otherwise it returns \<open>undefined\<close>.
\<close>

theorem C10_authorize_returns_find_result:
  assumes "\<not> notAPermission permission"
  shows "authorize r permission (JTarget t) =
           Inr (if list_ex (\<lambda>rt. containsOrEquals rt t) (targets r)
                then (case List.find (\<lambda>p. p = permission \<or> p = Permission_ALL) (permissions r) of
                        None \<Rightarrow> JUndefined
                      | Some p \<Rightarrow> JStr p)
                else JUndefined)
       \<and> (\<forall>b. authorize r permission (JTarget t) \<noteq> Inr (JBool b))
       \<and> (authorizes r permission (JTarget t) \<longrightarrow>
            (\<exists>p. authorize r permission (JTarget t) = Inr (JStr p) \<and> p \<noteq> [] \<and>
                 p \<in> set (permissions r) \<and> (p = permission \<or> p = Permission_ALL)))
       \<and> (\<not> authorizes r permission (JTarget t) \<longrightarrow>
            authorize r permission (JTarget t) = Inr JUndefined)"
proof -
  have ne: "permission \<noteq> []" by (rule permission_nonempty [OF assms])
  have all_ne: "Permission_ALL \<noteq> []" by (simp add: Permission_ALL_def)
  let ?v = "if list_ex (\<lambda>rt. containsOrEquals rt t) (targets r)
            then (case List.find (\<lambda>p. p = permission \<or> p = Permission_ALL) (permissions r) of
                    None \<Rightarrow> JUndefined
                  | Some p \<Rightarrow> JStr p)
            else JUndefined"
  have val: "authorize r permission (JTarget t) = Inr ?v"
    by (simp add: authorize_valid [OF assms] js_and_def truthy_find_target
        find_target_undefined js_find_def [of JStr])
  have nobool: "\<forall>b. ?v \<noteq> JBool b"
    by (auto split: option.splits)
  have yes: "truthy ?v \<longrightarrow> (\<exists>p. ?v = JStr p \<and> p \<noteq> [] \<and>
                 p \<in> set (permissions r) \<and> (p = permission \<or> p = Permission_ALL))"
    using find_permission_cases [of permission "permissions r"] ne all_ne
    by (auto split: option.splits)
  have no: "\<not> truthy ?v \<longrightarrow> ?v = JUndefined"
    using find_permission_cases [of permission "permissions r"] ne all_ne
    by (auto split: option.splits)
  have az: "authorizes r permission (JTarget t) = truthy ?v"
    by (simp add: authorizes_def val)
  show ?thesis
    unfolding az using val nobool yes no by simp
qed

theorem C10_authorize_returns_find_result_witness:
  "\<not> notAPermission ''READ'' \<and>
   authorize
     (Role (JStr ''IngenEnggHM'') (JStr ''IngenEngineeringHiringManager'') JUndefined
        [\<lparr>level = [''InGen'', ''Engineering'', ''job789''],
          uri = ''target://InGen/Engineering/job789''\<rparr>]
        JUndefined [''CREATE'', ''READ'', ''UPDATE'', ''DELETE''])
     ''READ''
     (JTarget \<lparr>level = [''InGen'', ''Engineering'', ''job789'', ''Interview1''],
               uri = ''target://InGen/Engineering/job789/Interview1''\<rparr>) = Inr (JStr ''READ'') \<and>
   authorize
     (Role (JStr ''IngenEnggHM'') (JStr ''IngenEngineeringHiringManager'') JUndefined
        [\<lparr>level = [''InGen'', ''Engineering'', ''job789''],
          uri = ''target://InGen/Engineering/job789''\<rparr>]
        JUndefined [''CREATE'', ''READ'', ''UPDATE'', ''DELETE''])
     ''READ''
     (JTarget \<lparr>level = [''InGen'', ''HR''], uri = ''target://InGen/HR''\<rparr>) = Inr JUndefined"
proof -
  have v: "\<not> notAPermission ''READ''"
    by (simp add: notAPermission_def Permission_defs)
  show ?thesis
    using v
      C10_authorize_returns_find_result [OF v,
        of "Role (JStr ''IngenEnggHM'') (JStr ''IngenEngineeringHiringManager'') JUndefined
              [\<lparr>level = [''InGen'', ''Engineering'', ''job789''],
                uri = ''target://InGen/Engineering/job789''\<rparr>]
              JUndefined [''CREATE'', ''READ'', ''UPDATE'', ''DELETE'']"
           "\<lparr>level = [''InGen'', ''Engineering'', ''job789'', ''Interview1''],
               uri = ''target://InGen/Engineering/job789/Interview1''\<rparr>"]
      C10_authorize_returns_find_result [OF v,
        of "Role (JStr ''IngenEnggHM'') (JStr ''IngenEngineeringHiringManager'') JUndefined
              [\<lparr>level = [''InGen'', ''Engineering'', ''job789''],
                uri = ''target://InGen/Engineering/job789''\<rparr>]
              JUndefined [''CREATE'', ''READ'', ''UPDATE'', ''DELETE'']"
           "\<lparr>level = [''InGen'', ''HR''], uri = ''target://InGen/HR''\<rparr>"]
    by (simp add: containsOrEquals_prefix Permission_defs)
qed

end
